theory Spec2Isabelle
  imports Complex_Main "HOL-Library.Multiset"
begin

section \<open>JavaScript values used by the matcher\<close>

text \<open>
  A JavaScript number is modelled as an exact real, or one of the three non-finite
  values. Rounding error of double arithmetic, overflow of finite values and the sign of
  zero are not modelled; every concrete input evaluated below is chosen so that the double
  computation is exact or the stated difference is far larger than any rounding error.
\<close>

datatype jsnum = Num real | Infinity | NegInfinity | NaN

fun jadd :: "jsnum \<Rightarrow> jsnum \<Rightarrow> jsnum" where
  "jadd (Num a) (Num b) = Num (a + b)"
| "jadd NaN _ = NaN"
| "jadd _ NaN = NaN"
| "jadd Infinity NegInfinity = NaN"
| "jadd NegInfinity Infinity = NaN"
| "jadd Infinity _ = Infinity"
| "jadd _ Infinity = Infinity"
| "jadd NegInfinity _ = NegInfinity"
| "jadd _ NegInfinity = NegInfinity"

fun jneg :: "jsnum \<Rightarrow> jsnum" where
  "jneg (Num a) = Num (- a)"
| "jneg Infinity = NegInfinity"
| "jneg NegInfinity = Infinity"
| "jneg NaN = NaN"

definition jsub :: "jsnum \<Rightarrow> jsnum \<Rightarrow> jsnum" where
  "jsub a b = jadd a (jneg b)"

fun jmul :: "jsnum \<Rightarrow> jsnum \<Rightarrow> jsnum" where
  "jmul (Num a) (Num b) = Num (a * b)"
| "jmul NaN _ = NaN"
| "jmul _ NaN = NaN"
| "jmul Infinity (Num b) = (if 0 < b then Infinity else if b < 0 then NegInfinity else NaN)"
| "jmul NegInfinity (Num b) = (if 0 < b then NegInfinity else if b < 0 then Infinity else NaN)"
| "jmul (Num a) Infinity = (if 0 < a then Infinity else if a < 0 then NegInfinity else NaN)"
| "jmul (Num a) NegInfinity = (if 0 < a then NegInfinity else if a < 0 then Infinity else NaN)"
| "jmul Infinity Infinity = Infinity"
| "jmul Infinity NegInfinity = NegInfinity"
| "jmul NegInfinity Infinity = NegInfinity"
| "jmul NegInfinity NegInfinity = Infinity"

text \<open>Division, with a zero divisor read as \<open>+0\<close>.\<close>

fun jdiv :: "jsnum \<Rightarrow> jsnum \<Rightarrow> jsnum" where
  "jdiv (Num a) (Num b) =
     (if b \<noteq> 0 then Num (a / b)
      else if a = 0 then NaN else if 0 < a then Infinity else NegInfinity)"
| "jdiv NaN _ = NaN"
| "jdiv _ NaN = NaN"
| "jdiv (Num a) _ = Num 0"
| "jdiv Infinity (Num b) = (if 0 \<le> b then Infinity else NegInfinity)"
| "jdiv NegInfinity (Num b) = (if 0 \<le> b then NegInfinity else Infinity)"
| "jdiv _ _ = NaN"

text \<open>\<open>Math.min(a, b)\<close>: \<open>NaN\<close> when either argument is.\<close>

fun jmin :: "jsnum \<Rightarrow> jsnum \<Rightarrow> jsnum" where
  "jmin (Num a) (Num b) = Num (min a b)"
| "jmin NaN _ = NaN"
| "jmin _ NaN = NaN"
| "jmin NegInfinity _ = NegInfinity"
| "jmin _ NegInfinity = NegInfinity"
| "jmin Infinity b = b"
| "jmin a Infinity = a"

fun jabs :: "jsnum \<Rightarrow> jsnum" where
  "jabs (Num a) = Num \<bar>a\<bar>"
| "jabs NaN = NaN"
| "jabs _ = Infinity"

text \<open>\<open>a > b\<close> on numbers: every comparison with \<open>NaN\<close> is false.\<close>

fun jgt :: "jsnum \<Rightarrow> jsnum \<Rightarrow> bool" where
  "jgt (Num a) (Num b) = (b < a)"
| "jgt NaN _ = False"
| "jgt _ NaN = False"
| "jgt Infinity b = (b \<noteq> Infinity)"
| "jgt _ NegInfinity = True"
| "jgt _ _ = False"

text \<open>
  \<open>parseFloat(x.toFixed(4))\<close>. \<open>toFixed\<close> picks the integer \<open>n\<close> with \<open>n / 10^4\<close>
  nearest to the magnitude of \<open>x\<close>, the larger one on a tie, and restores the sign; from
  \<open>10^21\<close> on it prints the number itself. \<open>NaN\<close> and the infinities print as their names,
  which \<open>parseFloat\<close> reads back.
\<close>

definition round4 :: "real \<Rightarrow> real" where
  "round4 x =
     (if 10 ^ 21 \<le> \<bar>x\<bar> then x
      else if x < 0 then - (of_int \<lfloor>(- x) * 10000 + 1 / 2\<rfloor> / 10000)
      else of_int \<lfloor>x * 10000 + 1 / 2\<rfloor> / 10000)"

fun jround4 :: "jsnum \<Rightarrow> jsnum" where
  "jround4 (Num x) = Num (round4 x)"
| "jround4 v = v"

subsection \<open>Strings\<close>

text \<open>Strings are ASCII character lists; \<open>toLowerCase\<close> maps \<open>A..Z\<close> to \<open>a..z\<close>
  and leaves every other character as it is.\<close>

definition is_upper :: "char \<Rightarrow> bool" where
  "is_upper c = (let n = (of_char c :: nat) in 65 \<le> n \<and> n \<le> 90)"

text \<open>For a code between 65 and 90, adding 32 is setting the bit of weight 32.\<close>

definition lower_char :: "char \<Rightarrow> char" where
  "lower_char c =
     (if is_upper c then
        (case c of Char b0 b1 b2 b3 b4 b5 b6 b7 \<Rightarrow> Char b0 b1 b2 b3 b4 True b6 b7)
      else c)"

definition toLowerCase :: "string \<Rightarrow> string" where
  "toLowerCase s = map lower_char s"

fun starts_with :: "string \<Rightarrow> string \<Rightarrow> bool" where
  "starts_with _ [] = True"
| "starts_with [] (n # ns) = False"
| "starts_with (h # hs) (n # ns) = (h = n \<and> starts_with hs ns)"

text \<open>\<open>hay.includes(needle)\<close> on strings: the needle occurs as a contiguous substring.\<close>

fun includes_str :: "string \<Rightarrow> string \<Rightarrow> bool" where
  "includes_str [] needle = (needle = [])"
| "includes_str (h # hs) needle = (starts_with (h # hs) needle \<or> includes_str hs needle)"

definition is_space :: "char \<Rightarrow> bool" where
  "is_space c = (let n = (of_char c :: nat) in n = 32 \<or> (9 \<le> n \<and> n \<le> 13))"

text \<open>
  \<open>s.split(/\s+/)\<close>: the pieces between maximal runs of white space, with an empty
  piece before a leading run and after a trailing one. The flag tells whether the previous
  character was white space.
\<close>

fun split_go :: "string \<Rightarrow> string \<Rightarrow> bool \<Rightarrow> string list" where
  "split_go [] cur in_ws = [rev cur]"
| "split_go (c # cs) cur in_ws =
     (if is_space c then (if in_ws then split_go cs cur True else rev cur # split_go cs [] True)
      else split_go cs (c # cur) False)"

definition split_ws :: "string \<Rightarrow> string list" where
  "split_ws s = split_go s [] False"

text \<open>\<open>xs.join(' ')\<close>.\<close>

fun join_sp :: "string list \<Rightarrow> string" where
  "join_sp [] = []"
| "join_sp [x] = x"
| "join_sp (x # y # ys) = x @ CHR '' '' # join_sp (y # ys)"

text \<open>Truthiness of an optional string (the empty string is falsy), \<open>s || ''\<close> and
  \<open>xs || []\<close>.\<close>

definition truthy_str :: "string option \<Rightarrow> bool" where
  "truthy_str s = (case s of None \<Rightarrow> False | Some v \<Rightarrow> v \<noteq> [])"

definition str_or_empty :: "string option \<Rightarrow> string" where
  "str_or_empty s = (case s of None \<Rightarrow> [] | Some v \<Rightarrow> v)"

definition or_empty :: "'a list option \<Rightarrow> 'a list" where
  "or_empty xs = (case xs of None \<Rightarrow> [] | Some v \<Rightarrow> v)"

definition or_zero :: "nat option \<Rightarrow> nat" where
  "or_zero n = (case n of None \<Rightarrow> 0 | Some v \<Rightarrow> v)"

text \<open>\<open>n || 1\<close> on an optional count: \<open>undefined\<close> and \<open>0\<close> are falsy.\<close>

definition or_one :: "nat option \<Rightarrow> nat" where
  "or_one n = (case n of None \<Rightarrow> 1 | Some v \<Rightarrow> if v = 0 then 1 else v)"

section \<open>Data model\<close>

text \<open>
  Fields follow \<open>shared/types/index.ts\<close>: \<open>analysis\<close> is a required part of a creator;
  the fields the matcher guards with \<open>||\<close> or a truthiness test are optional.
\<close>

record target_audience =
  ta_locale :: "string option"
  ta_demographic :: "string option"

record assignment =
  topic :: "string option"
  keyTakeaway :: "string option"
  additionalContext :: "string option"
  targetAudience :: "target_audience option"
  creatorNiches :: "string list option"
  creatorValues :: "string list option"
  toneStyle :: "string option"

record engagement_style =
  tone :: "string list option"

record analysis =
  summary :: "string option"
  primaryNiches :: "string list option"
  secondaryNiches :: "string list option"
  apparentValues :: "string list option"
  audienceInterests :: "string list option"
  engagementStyle :: "engagement_style option"

record creator =
  uniqueId :: string
  nickname :: string
  heartCount :: "nat option"
  followerCount :: "nat option"
  region :: "string option"
  analysis :: analysis

record score_breakdown =
  semanticSimilarity :: jsnum
  nicheAlignment :: nat
  audienceMatch :: real
  valueAlignment :: real
  nicheBoost :: real

record creator_match =
  creator :: creator
  matchScore :: jsnum
  scoreBreakdown :: score_breakdown

section \<open>Matcher (services/matching-service/utils/matcher.js)\<close>

record weights =
  w_semanticSimilarity :: real
  w_nicheAlignment :: real
  w_audienceMatch :: real
  w_valueAlignment :: real

definition matcher_weights :: weights where
  "matcher_weights =
     \<lparr>w_semanticSimilarity = 7 / 10, w_nicheAlignment = 2 / 10,
      w_audienceMatch = 5 / 100, w_valueAlignment = 5 / 100\<rparr>"

definition calculateNicheAlignment :: "assignment \<Rightarrow> creator \<Rightarrow> nat" where
  "calculateNicheAlignment a c =
     (case creatorNiches a of
        None \<Rightarrow> 0
      | Some ns \<Rightarrow>
          if length ns = 0 then 0
          else
            let cn = map toLowerCase
                       (or_empty (primaryNiches (analysis c)) @ or_empty (secondaryNiches (analysis c)))
            in length (filter (\<lambda>niche. toLowerCase niche \<in> set cn) ns))"

text \<open>The three factors of \<open>calculateAudienceMatch\<close>; each returns what it adds to
  \<open>score\<close> and to \<open>factors\<close>.\<close>

definition localeFactor :: "target_audience \<Rightarrow> creator \<Rightarrow> real \<times> nat" where
  "localeFactor ta c =
     (if truthy_str (ta_locale ta) \<and> truthy_str (region c) then
        (if toLowerCase (str_or_empty (region c)) = toLowerCase (str_or_empty (ta_locale ta)) then 4 / 10 else 0, 1)
      else (0, 0))"

definition demographicFactor :: "target_audience \<Rightarrow> creator \<Rightarrow> real \<times> nat" where
  "demographicFactor ta c =
     (if truthy_str (ta_demographic ta) then
        let demographic = toLowerCase (str_or_empty (ta_demographic ta));
            interests = join_sp (map toLowerCase (or_empty (audienceInterests (analysis c))));
            summ = toLowerCase (str_or_empty (summary (analysis c)));
            demographicWords = split_ws demographic;
            matchedWords = filter (\<lambda>word. includes_str interests word \<or> includes_str summ word)
                             demographicWords
        in (if 0 < length matchedWords
            then 3 / 10 * (real (length matchedWords) / real (length demographicWords)) else 0, 1)
      else (0, 0))"

definition toneFactor :: "assignment \<Rightarrow> creator \<Rightarrow> real \<times> nat" where
  "toneFactor a c =
     (case engagementStyle (analysis c) of
        None \<Rightarrow> (0, 0)
      | Some es \<Rightarrow>
          if truthy_str (toneStyle a) then
            let requestedTone = toLowerCase (str_or_empty (toneStyle a));
                creatorTones = map toLowerCase (or_empty (tone es));
                toneMatch = list_ex (\<lambda>t. includes_str t requestedTone \<or> includes_str requestedTone t)
                              creatorTones
            in (if toneMatch then 3 / 10 else 0, 1)
          else (0, 0))"

definition calculateAudienceMatch :: "assignment \<Rightarrow> creator \<Rightarrow> real" where
  "calculateAudienceMatch a c =
     (case targetAudience a of
        None \<Rightarrow> 0
      | Some ta \<Rightarrow>
          let f1 = localeFactor ta c; f2 = demographicFactor ta c; f3 = toneFactor a c;
              score = 0 + fst f1 + fst f2 + fst f3;
              factors = 0 + snd f1 + snd f2 + snd f3
          in if 0 < factors then score else 0)"

definition calculateValueAlignment :: "assignment \<Rightarrow> creator \<Rightarrow> real" where
  "calculateValueAlignment a c =
     (case creatorValues a of
        None \<Rightarrow> 0
      | Some vs \<Rightarrow>
          if length vs = 0 then 0
          else
            let cv = map toLowerCase (or_empty (apparentValues (analysis c)))
            in real (length (filter (\<lambda>val. toLowerCase val \<in> set cv) vs)) / real (length vs))"

text \<open>\<open>assignment.creatorNiches?.length || 1\<close>.\<close>

definition maxNiches :: "assignment \<Rightarrow> nat" where
  "maxNiches a =
     (case creatorNiches a of None \<Rightarrow> 1 | Some ns \<Rightarrow> if length ns = 0 then 1 else length ns)"

definition nicheMatchRatio :: "assignment \<Rightarrow> creator \<Rightarrow> real" where
  "nicheMatchRatio a c = real (calculateNicheAlignment a c) / real (maxNiches a)"

text \<open>\<open>Math.pow(nicheMatchRatio, 0.5)\<close>; the ratio is a finite number that is not negative.\<close>

definition nicheBoostRaw :: "assignment \<Rightarrow> creator \<Rightarrow> real" where
  "nicheBoostRaw a c = sqrt (nicheMatchRatio a c)"

definition normalizedSemanticScore :: "jsnum \<Rightarrow> jsnum" where
  "normalizedSemanticScore s = jdiv (jadd s (Num 1)) (Num 2)"

definition baseScore :: "assignment \<Rightarrow> creator \<Rightarrow> jsnum \<Rightarrow> jsnum" where
  "baseScore a c s =
     jadd (jadd (jadd (jmul (normalizedSemanticScore s) (Num (w_semanticSimilarity matcher_weights)))
                      (Num (nicheMatchRatio a c * w_nicheAlignment matcher_weights)))
                (Num (calculateAudienceMatch a c * w_audienceMatch matcher_weights)))
          (Num (calculateValueAlignment a c * w_valueAlignment matcher_weights))"

definition totalScore :: "assignment \<Rightarrow> creator \<Rightarrow> jsnum \<Rightarrow> jsnum" where
  "totalScore a c s = jmul (baseScore a c s) (Num (1 + nicheBoostRaw a c))"

definition calculateMatch :: "assignment \<Rightarrow> creator \<Rightarrow> jsnum \<Rightarrow> creator_match" where
  "calculateMatch a c s =
     \<lparr>creator = c,
      matchScore = jround4 (jmin (Num 1) (totalScore a c s)),
      scoreBreakdown =
        \<lparr>semanticSimilarity = jround4 (normalizedSemanticScore s),
         nicheAlignment = calculateNicheAlignment a c,
         audienceMatch = calculateAudienceMatch a c,
         valueAlignment = calculateValueAlignment a c,
         nicheBoost = round4 (nicheBoostRaw a c)\<rparr>\<rparr>"

subsection \<open>Ranking\<close>

definition engagement :: "creator \<Rightarrow> real" where
  "engagement c = real (or_zero (heartCount c)) / real (or_one (followerCount c))"

definition breakTie :: "creator_match \<Rightarrow> creator_match \<Rightarrow> real" where
  "breakTie matchA matchB =
     (let engagementA = engagement (creator matchA);
          engagementB = engagement (creator matchB)
      in if engagementA \<noteq> engagementB then engagementB - engagementA
         else real (or_zero (followerCount (creator matchB)))
                - real (or_zero (followerCount (creator matchA))))"

text \<open>The comparator passed to \<open>sort\<close> in \<open>rankMatches\<close>.\<close>

definition compareMatches :: "creator_match \<Rightarrow> creator_match \<Rightarrow> jsnum" where
  "compareMatches a b =
     (let sa = scoreBreakdown a; sb = scoreBreakdown b in
      if nicheAlignment sb \<noteq> nicheAlignment sa
      then Num (real (nicheAlignment sb) - real (nicheAlignment sa))
      else if jgt (jabs (jsub (semanticSimilarity sb) (semanticSimilarity sa))) (Num (1 / 100))
      then jsub (semanticSimilarity sb) (semanticSimilarity sa)
      else if jgt (jabs (jsub (matchScore b) (matchScore a))) (Num (1 / 1000))
      then jsub (matchScore b) (matchScore a)
      else Num (breakTie a b))"

text \<open>
  \<open>Array.prototype.sort\<close> belongs to the engine, not to the repository. It is stable, and
  it places \<open>x\<close> before \<open>y\<close> unless the comparator's value for \<open>(x, y)\<close> is positive,
  a \<open>NaN\<close> value counting as zero. It is modelled as the stable insertion sort driven by
  the comparator: each element, from the last to the first, goes before the first element
  it does not have to follow.
\<close>

fun sort_keeps :: "jsnum \<Rightarrow> bool" where
  "sort_keeps (Num r) = (r \<le> 0)"
| "sort_keeps NaN = True"
| "sort_keeps NegInfinity = True"
| "sort_keeps Infinity = False"

fun sort_insert :: "('a \<Rightarrow> 'a \<Rightarrow> jsnum) \<Rightarrow> 'a \<Rightarrow> 'a list \<Rightarrow> 'a list" where
  "sort_insert cmp x [] = [x]"
| "sort_insert cmp x (y # ys) =
     (if sort_keeps (cmp x y) then x # y # ys else y # sort_insert cmp x ys)"

definition array_sort :: "('a \<Rightarrow> 'a \<Rightarrow> jsnum) \<Rightarrow> 'a list \<Rightarrow> 'a list" where
  "array_sort cmp xs = foldr (sort_insert cmp) xs []"

definition rankMatches :: "creator_match list \<Rightarrow> creator_match list" where
  "rankMatches ms = array_sort compareMatches ms"






text \<open>The composite score in the words of the specification, on a finite semantic score.\<close>

definition spec_base :: "assignment \<Rightarrow> creator \<Rightarrow> real \<Rightarrow> real" where
  "spec_base a c s =
     7 / 10 * ((s + 1) / 2) + 2 / 10 * nicheMatchRatio a c
       + 5 / 100 * calculateAudienceMatch a c + 5 / 100 * calculateValueAlignment a c"

definition spec_matchScore :: "assignment \<Rightarrow> creator \<Rightarrow> real \<Rightarrow> real" where
  "spec_matchScore a c s = round4 (min 1 (spec_base a c s * (1 + sqrt (nicheMatchRatio a c))))"

section \<open>Match orchestrator (services/matching-service/server.js, POST /matches)\<close>

text \<open>
  An awaited call either resolves with a value or rejects with an error, of which the
  handler reads the message only. The collaborators of one request are the fields of
  \<open>match_env\<close>; the catalog is the parsed \<open>creators.json\<close>, an association list in the
  order of \<open>Object.values\<close>, looked up by own key.
\<close>

datatype 'a outcome = Resolved 'a | Rejected string

record candidate =
  cand_id :: string
  cand_score :: jsnum

record match_env =
  servicesInitialized :: bool
  generateEmbedding :: "string \<Rightarrow> real list outcome"
  queryVectors :: "real list \<Rightarrow> nat \<Rightarrow> candidate list option outcome"
  loadCreators :: "(string \<times> creator) list outcome"
  generateCompletion :: "string \<Rightarrow> string outcome"
  persistUrlConfigured :: bool

record match_request =
  req_assignment :: "assignment option"
  req_assignmentId :: "string option"

datatype downstream_call =
    CallEmbedding string
  | CallVectorQuery "real list" nat
  | CallLoadCreators
  | CallCompletion string
  | CallPersist string

datatype response =
    ErrorResponse nat string
  | MatchResponse "creator_match list" string bool



fun resp_status :: "response \<Rightarrow> nat" where
  "resp_status (MatchResponse ms r f) = 200"
| "resp_status (ErrorResponse code msg) = code"

text \<open>A field interpolated into a template literal; a missing one prints as \<open>undefined\<close>.\<close>

definition js_str :: "string option \<Rightarrow> string" where
  "js_str s = (case s of None \<Rightarrow> ''undefined'' | Some v \<Rightarrow> v)"

definition assignmentText :: "assignment \<Rightarrow> string" where
  "assignmentText a =
     js_str (topic a) @ '' '' @ js_str (keyTakeaway a) @ '' '' @ js_str (additionalContext a)"

fun join_lines :: "string list \<Rightarrow> string" where
  "join_lines [] = []"
| "join_lines [x] = x"
| "join_lines (x # y # ys) = x @ CHR 0x0A # join_lines (y # ys)"

text \<open>The prompt for the completion model, without the indentation of the template.\<close>

definition reasoningPrompt :: "string \<Rightarrow> creator_match list \<Rightarrow> bool \<Rightarrow> string" where
  "reasoningPrompt text ranked fallback =
     join_lines
       [''Assignment: '' @ text,
        ''Top Creators:'',
        join_lines (map (\<lambda>m. ''- '' @ nickname (creator m) @ '': ''
                               @ js_str (summary (analysis (creator m)))) ranked),
        ''For each creator, provide a brief match reasoning (1-3 sentences) explaining why they are suitable for this assignment.'',
        ''Ensure the reasoning reflects the mapping between the assignment goals and the creator's specific style/audience.'',
        (if fallback
         then ''Note: Results are currently based on attribute matching only due to maintenance.''
         else [])]"

text \<open>Steps 1 and 2: the candidates, the fallback flag and the calls made.\<close>

definition vectorSearch ::
  "match_env \<Rightarrow> string \<Rightarrow> candidate list \<times> bool \<times> downstream_call list" where
  "vectorSearch env text =
     (case generateEmbedding env text of
        Rejected e \<Rightarrow> ([], True, [CallEmbedding text])
      | Resolved assignmentEmbedding \<Rightarrow>
          (case queryVectors env assignmentEmbedding 15 of
             Rejected e \<Rightarrow>
               ([], True, [CallEmbedding text, CallVectorQuery assignmentEmbedding 15])
           | Resolved searchResults \<Rightarrow>
               (or_empty searchResults, False,
                [CallEmbedding text, CallVectorQuery assignmentEmbedding 15])))"

text \<open>Step 3: enrich and score.\<close>

definition scoreCandidates ::
  "assignment \<Rightarrow> (string \<times> creator) list \<Rightarrow> candidate list \<Rightarrow> bool \<Rightarrow> creator_match list" where
  "scoreCandidates a creators candidates fallback =
     (if fallback then map (\<lambda>c. calculateMatch a c (Num 0)) (map snd creators)
      else List.map_filter
             (\<lambda>m. case map_of creators (cand_id m) of
                     None \<Rightarrow> None
                   | Some c \<Rightarrow> Some (calculateMatch a c (cand_score m)))
             candidates)"

definition post_matches :: "match_env \<Rightarrow> match_request \<Rightarrow> response \<times> downstream_call list" where
  "post_matches env req =
     (if \<not> servicesInitialized env
      then (ErrorResponse 503 ''External services not initialized'', [])
      else
        case req_assignment req of
          None \<Rightarrow> (ErrorResponse 400 ''assignment is required'', [])
        | Some a \<Rightarrow>
            let text = assignmentText a;
                (candidates, fallback, calls1) = vectorSearch env text;
                calls2 = calls1 @ [CallLoadCreators]
            in (case loadCreators env of
                 Rejected msg \<Rightarrow>
                   (if includes_str msg ''Circuit breaker''
                    then ErrorResponse 503 ''Service temporarily unavailable''
                    else ErrorResponse 500 ''Failed to create match'', calls2)
               | Resolved creators \<Rightarrow>
                   let scoredMatches = scoreCandidates a creators candidates fallback in
                   if length scoredMatches = 0
                   then (MatchResponse [] ''No suitable creators found for this assignment.''
                           fallback, calls2)
                   else
                     let rankedMatches = take 3 (rankMatches scoredMatches);
                         prompt = reasoningPrompt text rankedMatches fallback;
                         reasoning =
                           (case generateCompletion env prompt of
                              Resolved r \<Rightarrow> r
                            | Rejected e \<Rightarrow>
                                ''AI reasoning generation currently unavailable. Please review creators based on their profile alignment.'');
                         calls3 = calls2 @ [CallCompletion prompt];
                         calls4 =
                           (if truthy_str (req_assignmentId req) \<and> persistUrlConfigured env
                            then calls3 @ [CallPersist (str_or_empty (req_assignmentId req))]
                            else calls3)
                     in (MatchResponse rankedMatches reasoning fallback, calls4)))"


section \<open>Resilience layer (shared/services/pinecone.js, bedrock.js)\<close>

subsection \<open>Circuit breaker\<close>

text \<open>
  The breaker fields of a service object; the three services carry the same code. Times
  are milliseconds as \<open>Date.now()\<close> returns them.
\<close>

datatype breaker_state = CLOSED | OPEN | HALF_OPEN

record breaker =
  circuitBreakerState :: breaker_state
  failureCount :: nat
  failureThreshold :: nat
  resetTimeout :: int
  lastFailureTime :: "int option"

definition new_breaker :: breaker where
  "new_breaker =
     \<lparr>circuitBreakerState = CLOSED, failureCount = 0, failureThreshold = 5,
      resetTimeout = 30000, lastFailureTime = None\<rparr>"

definition handleFailure :: "int \<Rightarrow> breaker \<Rightarrow> breaker" where
  "handleFailure now b =
     (let b1 = b\<lparr>failureCount := failureCount b + 1, lastFailureTime := Some now\<rparr>
      in if failureThreshold b1 \<le> failureCount b1
         then b1\<lparr>circuitBreakerState := OPEN\<rparr> else b1)"

text \<open>
  \<open>executeWithCircuitBreaker\<close>: \<open>now\<close> is the clock at entry, \<open>res\<close> the outcome of
  \<open>executeWithRetry\<close> (not run when the breaker rejects the call) and \<open>finished\<close> the clock
  when that outcome arrives. A \<open>null\<close> time of last failure counts as 0 in the subtraction.
\<close>

definition executeWithCircuitBreaker ::
  "string \<Rightarrow> breaker \<Rightarrow> int \<Rightarrow> 'a outcome \<Rightarrow> int \<Rightarrow> breaker \<times> 'a outcome" where
  "executeWithCircuitBreaker service b now res finished =
     (if circuitBreakerState b = OPEN
         \<and> now - (case lastFailureTime b of None \<Rightarrow> 0 | Some t \<Rightarrow> t) \<le> resetTimeout b
      then (b, Rejected (''Circuit breaker is OPEN - '' @ service @ '' service unavailable''))
      else
        let b1 = (if circuitBreakerState b = OPEN
                  then b\<lparr>circuitBreakerState := HALF_OPEN\<rparr> else b)
        in case res of
             Resolved v \<Rightarrow>
               (if circuitBreakerState b1 = HALF_OPEN
                then b1\<lparr>circuitBreakerState := CLOSED, failureCount := 0\<rparr> else b1,
                Resolved v)
           | Rejected e \<Rightarrow> (handleFailure finished b1, Rejected e))"

text \<open>A sequence of calls on one breaker: each entry is the entry time, the terminal
  outcome of the retried operation and the completion time.\<close>

fun run_calls :: "string \<Rightarrow> breaker \<Rightarrow> (int \<times> unit outcome \<times> int) list \<Rightarrow> breaker" where
  "run_calls service b [] = b"
| "run_calls service b ((now, res, finished) # cs) =
     run_calls service (fst (executeWithCircuitBreaker service b now res finished)) cs"

subsection \<open>Retry\<close>

text \<open>
  An error as the retry loops read it. The operation is a function of the attempt number,
  as each attempt invokes it once. The loops return what they return or throw, and the
  invocations and sleeps they made; \<open>lastError\<close> is \<open>None\<close> while nothing was caught.
\<close>

record js_error =
  err_name :: string
  err_code :: "string option"
  err_message :: string

datatype retry_event = Invoke nat | Sleep nat

fun invocations :: "retry_event list \<Rightarrow> nat" where
  "invocations [] = 0"
| "invocations (Invoke n # es) = Suc (invocations es)"
| "invocations (Sleep d # es) = invocations es"

function pinecone_retry_loop ::
  "nat \<Rightarrow> nat \<Rightarrow> (nat \<Rightarrow> js_error + 'a) \<Rightarrow> nat \<Rightarrow> js_error option \<Rightarrow> retry_event list
   \<Rightarrow> (js_error option + 'a) \<times> retry_event list" where
  "pinecone_retry_loop maxRetries retryDelay operation attempt lastError events =
     (if attempt \<le> maxRetries then
        (case operation attempt of
           Inr v \<Rightarrow> (Inr v, events @ [Invoke attempt])
         | Inl error \<Rightarrow>
             pinecone_retry_loop maxRetries retryDelay operation (attempt + 1) (Some error)
               (events @ [Invoke attempt]
                  @ (if attempt < maxRetries then [Sleep (retryDelay * 2 ^ (attempt - 1))] else [])))
      else (Inl lastError, events))"
  by pat_completeness auto
termination
  by (relation "measure (\<lambda>(m, d, operation, attempt, l, ev). Suc m - attempt)") auto

declare pinecone_retry_loop.simps [simp del]

definition pinecone_executeWithRetry ::
  "(nat \<Rightarrow> js_error + 'a) \<Rightarrow> (js_error option + 'a) \<times> retry_event list" where
  "pinecone_executeWithRetry operation = pinecone_retry_loop 3 1000 operation 1 None []"

definition isThrottling :: "js_error \<Rightarrow> bool" where
  "isThrottling error =
     (err_name error = ''ThrottlingException''
      \<or> err_name error = ''ProvisionedThroughputExceededException'')"

definition isRetryableError :: "js_error \<Rightarrow> bool" where
  "isRetryableError error =
     (err_name error \<in> set [''ThrottlingException'', ''ProvisionedThroughputExceededException'',
                             ''InternalServerException'', ''ServiceUnavailableException'',
                             ''ECONNRESET'', ''ETIMEDOUT'']
      \<or> err_code error = Some ''ECONNRESET'')"

function bedrock_retry_loop ::
  "nat \<Rightarrow> nat \<Rightarrow> (nat \<Rightarrow> js_error + 'a) \<Rightarrow> nat \<Rightarrow> js_error option \<Rightarrow> retry_event list
   \<Rightarrow> (js_error option + 'a) \<times> retry_event list" where
  "bedrock_retry_loop maxRetries retryDelay operation attempt lastError events =
     (if attempt \<le> maxRetries then
        (case operation attempt of
           Inr v \<Rightarrow> (Inr v, events @ [Invoke attempt])
         | Inl error \<Rightarrow>
             if isThrottling error \<and> attempt < maxRetries then
               bedrock_retry_loop maxRetries retryDelay operation (attempt + 1) (Some error)
                 (events @ [Invoke attempt, Sleep (2 ^ attempt * 1000)])
             else if attempt < maxRetries \<and> isRetryableError error then
               bedrock_retry_loop maxRetries retryDelay operation (attempt + 1) (Some error)
                 (events @ [Invoke attempt, Sleep (retryDelay * 2 ^ (attempt - 1))])
             else (Inl (Some error), events @ [Invoke attempt]))
      else (Inl lastError, events))"
  by pat_completeness auto
termination
  by (relation "measure (\<lambda>(m, d, operation, attempt, l, ev). Suc m - attempt)") auto

declare bedrock_retry_loop.simps [simp del]

definition bedrock_executeWithRetry ::
  "(nat \<Rightarrow> js_error + 'a) \<Rightarrow> (js_error option + 'a) \<times> retry_event list" where
  "bedrock_executeWithRetry operation = bedrock_retry_loop 3 1000 operation 1 None []"

section \<open>Health monitor (shared/services/healthMonitor.js, serviceManager.js)\<close>

text \<open>
  The registry is a \<open>Map\<close> from name to service entry, kept as an association list in
  insertion order; \<open>set\<close> on a present key replaces the value in place.
\<close>

record monitored_service =
  svc_name :: string
  svc_timeout :: nat
  critical :: bool
  lastStatus :: string
  consecutiveFailures :: nat
  maxFailures :: nat
  enabled :: bool

record register_options =
  opt_timeout :: "nat option"
  opt_critical :: "bool option"
  opt_maxFailures :: "nat option"
  opt_enabled :: "bool option"

fun map_set :: "string \<Rightarrow> 'v \<Rightarrow> (string \<times> 'v) list \<Rightarrow> (string \<times> 'v) list" where
  "map_set k v [] = [(k, v)]"
| "map_set k v ((k', v') # kvs) = (if k' = k then (k, v) # kvs else (k', v') # map_set k v kvs)"

text \<open>\<open>n || d\<close> on an optional number, and \<open>b || false\<close>, \<open>b !== false\<close> on an optional
  flag.\<close>

definition num_or :: "nat option \<Rightarrow> nat \<Rightarrow> nat" where
  "num_or n d = (case n of None \<Rightarrow> d | Some v \<Rightarrow> if v = 0 then d else v)"

definition registerService ::
  "string \<Rightarrow> register_options \<Rightarrow> (string \<times> monitored_service) list
   \<Rightarrow> (string \<times> monitored_service) list" where
  "registerService name options services =
     map_set name
       \<lparr>svc_name = name,
        svc_timeout = num_or (opt_timeout options) 5000,
        critical = (case opt_critical options of None \<Rightarrow> False | Some b \<Rightarrow> b),
        lastStatus = ''unknown'',
        consecutiveFailures = 0,
        maxFailures = num_or (opt_maxFailures options) 3,
        enabled = (opt_enabled options \<noteq> Some False)\<rparr>
       services"

text \<open>
  \<open>checkServiceHealth\<close>: the health check resolves with an object, whose \<open>status\<close>
  field may be missing or empty, or it throws or times out. Only the update of the entry is
  kept; the history is not modelled.
\<close>

definition checkServiceHealth ::
  "string \<Rightarrow> string option outcome \<Rightarrow> (string \<times> monitored_service) list
   \<Rightarrow> (string \<times> monitored_service) list" where
  "checkServiceHealth serviceName result services =
     (case map_of services serviceName of
        None \<Rightarrow> services
      | Some service \<Rightarrow>
          if \<not> enabled service then services
          else
            map_set serviceName
              (case result of
                 Resolved st \<Rightarrow>
                   service\<lparr>lastStatus := (if truthy_str st then str_or_empty st else ''healthy''),
                           consecutiveFailures := 0\<rparr>
               | Rejected err \<Rightarrow>
                   service\<lparr>lastStatus := ''unhealthy'',
                           consecutiveFailures := consecutiveFailures service + 1\<rparr>)
              services)"

record health_summary =
  sum_total :: nat
  sum_healthy :: nat
  sum_unhealthy :: nat
  sum_critical :: nat

record overall_health =
  oh_status :: string
  oh_summary :: health_summary

definition getOverallHealth :: "(string \<times> monitored_service) list \<Rightarrow> overall_health" where
  "getOverallHealth services =
     (let serviceStatuses = map snd services;
          criticalServices = filter critical serviceStatuses;
          unhealthyCritical = filter (\<lambda>s. lastStatus s = ''unhealthy'') criticalServices;
          unhealthyServices = filter (\<lambda>s. lastStatus s = ''unhealthy'') serviceStatuses;
          overallStatus =
            (if 0 < length unhealthyCritical then ''critical''
             else if 0 < length unhealthyServices then ''degraded''
             else ''healthy'')
      in \<lparr>oh_status = overallStatus,
          oh_summary =
            \<lparr>sum_total = length serviceStatuses,
             sum_healthy = length (filter (\<lambda>s. lastStatus s = ''healthy'') serviceStatuses),
             sum_unhealthy = length unhealthyServices,
             sum_critical = length unhealthyCritical\<rparr>\<rparr>)"

text \<open>
  \<open>ServiceManager.registerHealthChecks\<close>: the vector index and the primary AI provider.
  The AI provider is one service object with one breaker, behind both \<open>generateEmbedding\<close>
  and \<open>generateCompletion\<close>. What the two health checks return is a function of the
  service's \<open>getHealthStatus()\<close> and, for the vector index, of the \<open>getIndexStats\<close> probe.
\<close>

record service_status =
  configured :: bool
  st_circuitBreakerState :: breaker_state

definition registerHealthChecks ::
  "string \<Rightarrow> (string \<times> monitored_service) list \<Rightarrow> (string \<times> monitored_service) list" where
  "registerHealthChecks aiName services =
     registerService aiName
       \<lparr>opt_timeout = Some 10000, opt_critical = Some True, opt_maxFailures = None,
        opt_enabled = None\<rparr>
       (registerService ''pinecone''
          \<lparr>opt_timeout = Some 10000, opt_critical = Some True, opt_maxFailures = None,
           opt_enabled = None\<rparr>
          services)"

definition pineconeHealthCheck :: "service_status \<Rightarrow> unit outcome \<Rightarrow> string option outcome" where
  "pineconeHealthCheck status indexStats =
     (if \<not> configured status then Resolved (Some ''unhealthy'')
      else if st_circuitBreakerState status = OPEN then Resolved (Some ''unhealthy'')
      else case indexStats of
             Resolved u \<Rightarrow> Resolved (Some ''healthy'')
           | Rejected e \<Rightarrow> Resolved (Some ''unhealthy''))"

definition aiHealthCheck :: "service_status \<Rightarrow> string option outcome" where
  "aiHealthCheck status =
     (if \<not> configured status then Resolved (Some ''unhealthy'')
      else if st_circuitBreakerState status = OPEN then Resolved (Some ''unhealthy'')
      else Resolved (Some ''healthy''))"

text \<open>One monitoring cycle over the two registered services.\<close>

definition checkRegistered ::
  "string \<Rightarrow> service_status \<Rightarrow> unit outcome \<Rightarrow> service_status
   \<Rightarrow> (string \<times> monitored_service) list \<Rightarrow> (string \<times> monitored_service) list" where
  "checkRegistered aiName pineconeStatus indexStats aiStatus services =
     checkServiceHealth aiName (aiHealthCheck aiStatus)
       (checkServiceHealth ''pinecone'' (pineconeHealthCheck pineconeStatus indexStats) services)"

section \<open>Concrete inputs\<close>

definition ex_analysis_none :: analysis where
  "ex_analysis_none =
     \<lparr>summary = None, primaryNiches = None, secondaryNiches = None, apparentValues = None,
      audienceInterests = None, engagementStyle = None\<rparr>"

definition ex_creator_plain :: creator where
  "ex_creator_plain =
     \<lparr>uniqueId = ''mm'', nickname = ''Alex R.'', heartCount = None, followerCount = None,
      region = None, analysis = ex_analysis_none\<rparr>"

definition ex_assignment_plain :: assignment where
  "ex_assignment_plain =
     \<lparr>topic = Some ''Investing 101'', keyTakeaway = Some ''Save more'',
      additionalContext = Some ''Teen audience'', targetAudience = None,
      creatorNiches = None, creatorValues = None, toneStyle = None\<rparr>"

text \<open>Scenario S3 of the specification: locale \<open>CA\<close> against region \<open>ca\<close>.\<close>

definition ex_assignment_locale :: assignment where
  "ex_assignment_locale =
     ex_assignment_plain\<lparr>targetAudience := Some \<lparr>ta_locale = Some ''CA'', ta_demographic = None\<rparr>\<rparr>"

definition ex_creator_ca :: creator where
  "ex_creator_ca = ex_creator_plain\<lparr>uniqueId := ''x'', region := Some ''ca''\<rparr>"

definition ex_assignment_values :: assignment where
  "ex_assignment_values =
     ex_assignment_plain\<lparr>creatorValues := Some [''Sustainability'', ''Practicality'', ''Honesty'']\<rparr>"

definition ex_creator_values :: creator where
  "ex_creator_values =
     ex_creator_plain\<lparr>analysis := ex_analysis_none\<lparr>apparentValues := Some [''sustainability'']\<rparr>\<rparr>"





text \<open>
  Scenario S4: the embedding provider is down and the catalog holds five creators. The
  second environment has a working vector path; the last request carries an assignment
  object with none of the required fields.
\<close>

definition ex_catalog :: "(string \<times> creator) list" where
  "ex_catalog =
     [(''mm'', ex_creator_plain),
      (''md'', ex_creator_plain\<lparr>uniqueId := ''md'', nickname := ''Taylor K.''\<rparr>),
      (''cc'', ex_creator_plain\<lparr>uniqueId := ''cc'', nickname := ''Riley S.''\<rparr>),
      (''cb'', ex_creator_plain\<lparr>uniqueId := ''cb'', nickname := ''Sam P.''\<rparr>),
      (''x'', ex_creator_ca)]"

definition ex_env_vector_down :: match_env where
  "ex_env_vector_down =
     \<lparr>servicesInitialized = True,
      generateEmbedding = (\<lambda>text. Rejected ''Bedrock unavailable''),
      queryVectors = (\<lambda>v k. Rejected ''Pinecone unavailable''),
      loadCreators = Resolved ex_catalog,
      generateCompletion = (\<lambda>prompt. Resolved ''Mocked AI reasoning.''),
      persistUrlConfigured = False\<rparr>"

definition ex_env_up :: match_env where
  "ex_env_up =
     ex_env_vector_down
       \<lparr>generateEmbedding := (\<lambda>text. Resolved [0]),
        queryVectors := (\<lambda>v k. Resolved (Some [\<lparr>cand_id = ''mm'', cand_score = Num (9 / 10)\<rparr>]))\<rparr>"

definition ex_request_plain :: match_request where
  "ex_request_plain = \<lparr>req_assignment = Some ex_assignment_plain, req_assignmentId = None\<rparr>"

definition ex_request_no_fields :: match_request where
  "ex_request_no_fields =
     \<lparr>req_assignment =
        Some \<lparr>topic = None, keyTakeaway = None, additionalContext = None, targetAudience = None,
              creatorNiches = None, creatorValues = None, toneStyle = None\<rparr>,
      req_assignmentId = None\<rparr>"

definition ex_request_no_assignment :: match_request where
  "ex_request_no_assignment = \<lparr>req_assignment = None, req_assignmentId = None\<rparr>"

text \<open>
  Six calls on a fresh breaker: four terminal failures, one success, one more failure. A
  configuration error, which no adapter lists as retryable, and an operation that fails
  with it on every attempt.
\<close>

definition ex_failure :: "unit outcome" where
  "ex_failure = Rejected ''Pinecone unavailable''"

definition ex_calls :: "(int \<times> unit outcome \<times> int) list" where
  "ex_calls =
     [(0, ex_failure, 10), (1000, ex_failure, 1010), (2000, ex_failure, 2010),
      (3000, ex_failure, 3010), (4000, Resolved (), 4010), (5000, ex_failure, 5010)]"

definition ex_config_error :: js_error where
  "ex_config_error =
     \<lparr>err_name = ''PineconeBadRequestError'', err_code = None,
      err_message = ''Vector dimension 1024 does not match the dimension of the index 1536''\<rparr>"

definition ex_failing_operation :: "nat \<Rightarrow> js_error + unit" where
  "ex_failing_operation attempt = Inl ex_config_error"

text \<open>
  Five completion calls in a row fail on the Bedrock service, whose breaker also guards the
  embedding calls. The registry is the one after \<open>registerHealthChecks\<close> with Bedrock as
  the AI provider and one monitoring cycle in which the vector index is healthy and the
  breaker of the AI provider is in the state those failures left.
\<close>

definition ex_completion_failures :: "(int \<times> unit outcome \<times> int) list" where
  "ex_completion_failures =
     [(0, Rejected ''completion failed'', 10), (1000, Rejected ''completion failed'', 1010),
      (2000, Rejected ''completion failed'', 2010), (3000, Rejected ''completion failed'', 3010),
      (4000, Rejected ''completion failed'', 4010)]"

definition ex_ai_breaker :: breaker where
  "ex_ai_breaker = run_calls ''Bedrock'' new_breaker ex_completion_failures"

definition ex_services_ai_open :: "(string \<times> monitored_service) list" where
  "ex_services_ai_open =
     checkRegistered ''bedrock''
       \<lparr>configured = True, st_circuitBreakerState = CLOSED\<rparr> (Resolved ())
       \<lparr>configured = True, st_circuitBreakerState = circuitBreakerState ex_ai_breaker\<rparr>
       (registerHealthChecks ''bedrock'' [])"

section \<open>Properties of the scorer\<close>

subsection \<open>Rounding\<close>

lemma round4_le_one: "x \<le> 1 \<Longrightarrow> round4 x \<le> 1"
proof -
  assume x: "x \<le> 1"
  have neg: "x < 0 \<Longrightarrow> - (of_int \<lfloor>(- x) * 10000 + 1 / 2\<rfloor> / 10000) \<le> (1::real)"
  proof -
    assume "x < 0"
    then have "0 \<le> \<lfloor>(- x) * 10000 + 1 / 2\<rfloor>" by simp
    then have "0 \<le> (of_int \<lfloor>(- x) * 10000 + 1 / 2\<rfloor> :: real)" by simp
    then have "0 \<le> (of_int \<lfloor>(- x) * 10000 + 1 / 2\<rfloor> :: real) / 10000" by simp
    then show ?thesis by linarith
  qed
  have pos: "of_int \<lfloor>x * 10000 + 1 / 2\<rfloor> / 10000 \<le> (1::real)"
  proof -
    have "x * 10000 + 1 / 2 < 10001" using x by simp
    then have "\<lfloor>x * 10000 + 1 / 2\<rfloor> < 10001" by (simp add: floor_less_iff)
    then have "\<lfloor>x * 10000 + 1 / 2\<rfloor> \<le> 10000" by simp
    then have "(of_int \<lfloor>x * 10000 + 1 / 2\<rfloor> :: real) \<le> 10000" by linarith
    then show ?thesis by (simp add: divide_le_eq)
  qed
  show ?thesis
  proof (cases "10 ^ 21 \<le> \<bar>x\<bar>")
    case True
    then show ?thesis using x by (simp add: round4_def)
  next
    case big: False
    show ?thesis
    proof (cases "x < 0")
      case True
      then have "round4 x = - (of_int \<lfloor>(- x) * 10000 + 1 / 2\<rfloor> / 10000)"
        using big by (simp only: round4_def if_False if_True)
      then show ?thesis using neg [OF True] by (simp only:)
    next
      case False
      then have "round4 x = of_int \<lfloor>x * 10000 + 1 / 2\<rfloor> / 10000"
        using big by (simp only: round4_def if_False)
      then show ?thesis using pos by (simp only:)
    qed
  qed
qed


subsection \<open>Ranges of the components\<close>





text \<open>\<open>split\<close> never returns the empty array, so the demographic factor does not divide
  by zero.\<close>

lemma split_go_nonempty: "split_go s cur f \<noteq> []"
  by (induction s cur f rule: split_go.induct) auto

lemma split_ws_pos: "0 < length (split_ws s)"
  by (simp add: split_ws_def split_go_nonempty)





subsection \<open>The composite score on a finite semantic score\<close>

lemma norm_Num: "normalizedSemanticScore (Num s) = Num ((s + 1) / 2)"
  by (simp add: normalizedSemanticScore_def)

lemma baseScore_Num: "baseScore a c (Num s) = Num (spec_base a c s)"
  by (simp add: baseScore_def norm_Num spec_base_def matcher_weights_def)

lemma totalScore_Num:
  "totalScore a c (Num s) = Num (spec_base a c s * (1 + sqrt (nicheMatchRatio a c)))"
  by (simp add: totalScore_def baseScore_Num nicheBoostRaw_def)

lemma matchScore_Num: "matchScore (calculateMatch a c (Num s)) = Num (spec_matchScore a c s)"
  by (simp add: calculateMatch_def totalScore_Num spec_matchScore_def)



lemma spec_matchScore_le_one: "spec_matchScore a c s \<le> 1"
  by (simp add: spec_matchScore_def round4_le_one)


subsection \<open>Evaluation at the concrete inputs\<close>

lemmas ex_defs = ex_analysis_none_def ex_creator_plain_def ex_assignment_plain_def
  ex_assignment_locale_def ex_creator_ca_def ex_assignment_values_def ex_creator_values_def

lemmas str_defs = toLowerCase_def lower_char_def is_upper_def truthy_str_def str_or_empty_def
  or_empty_def

lemma ratio_plain: "nicheMatchRatio ex_assignment_plain c = 0"
  by (simp add: nicheMatchRatio_def calculateNicheAlignment_def ex_defs)

lemma aud_plain: "calculateAudienceMatch ex_assignment_plain c = 0"
  by (simp add: calculateAudienceMatch_def ex_defs)

lemma val_plain: "calculateValueAlignment ex_assignment_plain c = 0"
  by (simp add: calculateValueAlignment_def ex_defs)


lemma spec_matchScore_plain_low: "spec_matchScore ex_assignment_plain c (- 3) = - (7 / 10)"
  by (simp add: spec_matchScore_def spec_base_def ratio_plain aud_plain val_plain round4_def)




subsection \<open>Claims about the scorer\<close>




text \<open>
  Claim C2 says that \<open>audienceMatch\<close> is 1 when the locale matches the region without
  regard to case. On the input of scenario S3 (locale \<open>CA\<close>, region \<open>ca\<close>, no demographic
  and no tone) the matcher of the matching service returns \<open>0.4\<close>: the locale is one of
  three weighted factors there.
\<close>

theorem C2_audienceMatch_locale_match:
  "audienceMatch (scoreBreakdown (calculateMatch ex_assignment_locale ex_creator_ca (Num 0))) = 2 / 5"
  by (simp add: calculateMatch_def calculateAudienceMatch_def localeFactor_def
      demographicFactor_def toneFactor_def ex_defs str_defs)




text \<open>
  Claim C10. The clamp is one-sided: for every assignment, creator and finite semantic
  score the match score is the rounded minimum of 1 and the boosted base, which is at most
  1; nothing bounds it from below, and the semantic score \<open>-3\<close> gives the match score
  \<open>-0.7\<close>.
\<close>

theorem C10_one_sided_clamp:
  "matchScore (calculateMatch a c (Num s)) = Num (spec_matchScore a c s)
   \<and> spec_matchScore a c s \<le> 1
   \<and> matchScore (calculateMatch ex_assignment_plain ex_creator_plain (Num (- 3)))
       = Num (- (7 / 10))"
  by (simp add: matchScore_Num spec_matchScore_le_one spec_matchScore_plain_low)

section \<open>Properties of the ranker\<close>






















section \<open>Properties of the orchestrator\<close>


lemma vectorSearch_first_call:
  "\<exists>cands fb rest. vectorSearch env text = (cands, fb, CallEmbedding text # rest)"
  by (auto simp: vectorSearch_def split: outcome.splits)






lemmas env_defs = ex_env_vector_down_def ex_env_up_def ex_request_plain_def
  ex_request_no_fields_def ex_request_no_assignment_def


text \<open>
  Claim C8 as stated fails: the handler tests only that \<open>assignment\<close> is present. A
  request whose assignment has no topic, key takeaway or context is answered with status
  200 after the embedding adapter and the vector index were called, the embedding on the
  text \<open>undefined undefined undefined\<close>.
\<close>

theorem C8_missing_fields_counterexample:
  "resp_status (fst (post_matches ex_env_up ex_request_no_fields)) = 200
   \<and> take 2 (snd (post_matches ex_env_up ex_request_no_fields))
       = [CallEmbedding ''undefined undefined undefined'', CallVectorQuery [0] 15]"
  by (simp add: post_matches_def vectorSearch_def scoreCandidates_def List.map_filter_def
      assignmentText_def js_str_def or_empty_def Let_def env_defs ex_catalog_def)

text \<open>
  Claim C8, as the code has it. Once the services are initialised, a request without an
  assignment object is answered with status 400 and no downstream call is made; a request
  with an assignment object, whatever its fields, starts by calling the embedding adapter
  on the composed text.
\<close>

theorem C8_assignment_presence_only:
  assumes "servicesInitialized env"
  shows "(req_assignment req = None \<longrightarrow>
           post_matches env req = (ErrorResponse 400 ''assignment is required'', []))
    \<and> (\<forall>a. req_assignment req = Some a \<longrightarrow>
           (\<exists>rest. snd (post_matches env req) = CallEmbedding (assignmentText a) # rest))"
proof -
  have "\<exists>rest. snd (post_matches env req) = CallEmbedding (assignmentText a) # rest"
    if a: "req_assignment req = Some a" for a
  proof -
    obtain cands fb rest where vs:
      "vectorSearch env (assignmentText a) = (cands, fb, CallEmbedding (assignmentText a) # rest)"
      using vectorSearch_first_call by blast
    show ?thesis
      using assms a
      by (simp add: post_matches_def vs Let_def split: outcome.splits)
  qed
  then show ?thesis using assms by (simp add: post_matches_def)
qed

theorem C8_assignment_presence_only_witness:
  "servicesInitialized ex_env_up
   \<and> req_assignment ex_request_no_assignment = None
   \<and> post_matches ex_env_up ex_request_no_assignment
       = (ErrorResponse 400 ''assignment is required'', [])
   \<and> req_assignment ex_request_plain = Some ex_assignment_plain
   \<and> (\<exists>rest. snd (post_matches ex_env_up ex_request_plain)
                 = CallEmbedding ''Investing 101 Save more Teen audience'' # rest)"
proof -
  have h: "servicesInitialized ex_env_up" by (simp add: env_defs)
  have t: "assignmentText ex_assignment_plain = ''Investing 101 Save more Teen audience''"
    by (simp add: assignmentText_def js_str_def ex_assignment_plain_def)
  have n: "req_assignment ex_request_no_assignment = None" by (simp add: env_defs)
  have p: "req_assignment ex_request_plain = Some ex_assignment_plain" by (simp add: env_defs)
  show ?thesis
    using C8_assignment_presence_only [OF h, of ex_request_no_assignment]
      C8_assignment_presence_only [OF h, of ex_request_plain] h n p
    by (simp add: t)
qed

section \<open>Properties of the resilience layer\<close>

subsection \<open>Circuit breaker\<close>

lemma success_when_closed:
  "circuitBreakerState b = CLOSED \<Longrightarrow>
   executeWithCircuitBreaker service b now (Resolved v) finished = (b, Resolved v)"
  by (simp add: executeWithCircuitBreaker_def)

lemma failure_when_closed:
  "circuitBreakerState b = CLOSED \<Longrightarrow>
   fst (executeWithCircuitBreaker service b now (Rejected e) finished) = handleFailure finished b"
  by (simp add: executeWithCircuitBreaker_def)

lemma handleFailure_opens:
  "circuitBreakerState (handleFailure now b) = OPEN \<longleftrightarrow>
   circuitBreakerState b = OPEN \<or> failureThreshold b \<le> failureCount b + 1"
  by (simp add: handleFailure_def Let_def)

lemma probe_success_closes:
  "circuitBreakerState b = OPEN \<Longrightarrow>
   resetTimeout b < now - (case lastFailureTime b of None \<Rightarrow> 0 | Some t \<Rightarrow> t) \<Longrightarrow>
   fst (executeWithCircuitBreaker service b now (Resolved v) finished)
     = b\<lparr>circuitBreakerState := CLOSED, failureCount := 0\<rparr>"
  by (simp add: executeWithCircuitBreaker_def)

text \<open>
  Claim C5 says that any successful call resets the failure counter, so that only
  consecutive failures open the breaker. The code resets the counter only when a probe
  succeeds in \<open>HALF_OPEN\<close>: after four failures the breaker is closed with a count of 4, a
  success leaves the count at 4, and a single further failure opens the breaker.
\<close>

theorem C5_success_keeps_failure_count:
  "circuitBreakerState (run_calls ''Pinecone'' new_breaker (take 4 ex_calls)) = CLOSED
   \<and> failureCount (run_calls ''Pinecone'' new_breaker (take 4 ex_calls)) = 4
   \<and> circuitBreakerState (run_calls ''Pinecone'' new_breaker (take 5 ex_calls)) = CLOSED
   \<and> failureCount (run_calls ''Pinecone'' new_breaker (take 5 ex_calls)) = 4
   \<and> circuitBreakerState (run_calls ''Pinecone'' new_breaker ex_calls) = OPEN"
  by (simp add: ex_calls_def ex_failure_def new_breaker_def executeWithCircuitBreaker_def
      handleFailure_def Let_def)

subsection \<open>Retry\<close>

lemma invocations_append: "invocations (es @ fs) = invocations es + invocations fs"
  by (induction es rule: invocations.induct) simp_all

text \<open>One turn of each loop.\<close>

lemma pinecone_loop_exit:
  "\<not> k \<le> m \<Longrightarrow> pinecone_retry_loop m d operation k l ev = (Inl l, ev)"
  by (simp add: pinecone_retry_loop.simps [where attempt = k])

lemma pinecone_loop_return:
  "k \<le> m \<Longrightarrow> operation k = Inr v \<Longrightarrow>
   pinecone_retry_loop m d operation k l ev = (Inr v, ev @ [Invoke k])"
  by (simp add: pinecone_retry_loop.simps [where attempt = k])

lemma pinecone_loop_retry:
  "k \<le> m \<Longrightarrow> operation k = Inl e \<Longrightarrow>
   pinecone_retry_loop m d operation k l ev =
     pinecone_retry_loop m d operation (Suc k) (Some e)
       (ev @ [Invoke k] @ (if k < m then [Sleep (d * 2 ^ (k - 1))] else []))"
  by (simp add: pinecone_retry_loop.simps [where attempt = k])

lemma bedrock_loop_exit:
  "\<not> k \<le> m \<Longrightarrow> bedrock_retry_loop m d operation k l ev = (Inl l, ev)"
  by (simp add: bedrock_retry_loop.simps [where attempt = k])

lemma bedrock_loop_return:
  "k \<le> m \<Longrightarrow> operation k = Inr v \<Longrightarrow>
   bedrock_retry_loop m d operation k l ev = (Inr v, ev @ [Invoke k])"
  by (simp add: bedrock_retry_loop.simps [where attempt = k])

lemma bedrock_loop_throttled:
  "k < m \<Longrightarrow> operation k = Inl e \<Longrightarrow> isThrottling e \<Longrightarrow>
   bedrock_retry_loop m d operation k l ev =
     bedrock_retry_loop m d operation (Suc k) (Some e) (ev @ [Invoke k, Sleep (2 ^ k * 1000)])"
  by (simp add: bedrock_retry_loop.simps [where attempt = k])

lemma bedrock_loop_retry:
  "k < m \<Longrightarrow> operation k = Inl e \<Longrightarrow> \<not> isThrottling e \<Longrightarrow> isRetryableError e \<Longrightarrow>
   bedrock_retry_loop m d operation k l ev =
     bedrock_retry_loop m d operation (Suc k) (Some e)
       (ev @ [Invoke k, Sleep (d * 2 ^ (k - 1))])"
  by (simp add: bedrock_retry_loop.simps [where attempt = k])

lemma bedrock_loop_break:
  "k \<le> m \<Longrightarrow> operation k = Inl e \<Longrightarrow> \<not> (isThrottling e \<and> k < m) \<Longrightarrow>
   \<not> (k < m \<and> isRetryableError e) \<Longrightarrow>
   bedrock_retry_loop m d operation k l ev = (Inl (Some e), ev @ [Invoke k])"
  by (subst bedrock_retry_loop.simps) auto

text \<open>Neither loop invokes the operation more than \<open>maxRetries\<close> times.\<close>

lemma pinecone_loop_invocations:
  "invocations (snd (pinecone_retry_loop m d operation k l ev)) \<le> invocations ev + (Suc m - k)"
proof (induction m d operation k l ev rule: pinecone_retry_loop.induct)
  case (1 m d operation k l ev)
  show ?case
  proof (cases "k \<le> m")
    case False
    then show ?thesis by (simp add: pinecone_loop_exit)
  next
    case True
    show ?thesis
    proof (cases "operation k")
      case (Inr v)
      with True show ?thesis by (simp add: pinecone_loop_return invocations_append)
    next
      case (Inl e)
      let ?ev = "ev @ [Invoke k] @ (if k < m then [Sleep (d * 2 ^ (k - 1))] else [])"
      have "invocations (snd (pinecone_retry_loop m d operation (k + 1) (Some e) ?ev))
              \<le> invocations ?ev + (Suc m - (k + 1))"
        using "1.IH" [OF True Inl] .
      moreover have "invocations ?ev + (Suc m - (k + 1)) = invocations ev + (Suc m - k)"
        using True by (simp add: invocations_append Suc_diff_le)
      ultimately show ?thesis using True Inl by (simp add: pinecone_loop_retry)
    qed
  qed
qed

lemma pinecone_at_most_three:
  "invocations (snd (pinecone_executeWithRetry operation)) \<le> 3"
  using pinecone_loop_invocations [of 3 1000 operation 1 None "[]"]
  by (simp add: pinecone_executeWithRetry_def)

lemma bedrock_loop_invocations:
  "invocations (snd (bedrock_retry_loop m d operation k l ev)) \<le> invocations ev + (Suc m - k)"
proof (induction m d operation k l ev rule: bedrock_retry_loop.induct)
  case (1 m d operation k l ev)
  show ?case
  proof (cases "k \<le> m")
    case False
    then show ?thesis by (simp add: bedrock_loop_exit)
  next
    case True
    show ?thesis
    proof (cases "operation k")
      case (Inr v)
      with True show ?thesis by (simp add: bedrock_loop_return invocations_append)
    next
      case (Inl e)
      show ?thesis
      proof (cases "isThrottling e \<and> k < m")
        case thr: True
        let ?ev = "ev @ [Invoke k, Sleep (2 ^ k * 1000)]"
        have "invocations (snd (bedrock_retry_loop m d operation (k + 1) (Some e) ?ev))
                \<le> invocations ?ev + (Suc m - (k + 1))"
          using "1.IH"(1) [OF True Inl thr] .
        moreover have "invocations ?ev + (Suc m - (k + 1)) = invocations ev + (Suc m - k)"
          using True by (simp add: invocations_append Suc_diff_le)
        ultimately show ?thesis using thr Inl by (simp add: bedrock_loop_throttled)
      next
        case nthr: False
        show ?thesis
        proof (cases "k < m \<and> isRetryableError e")
          case rt: True
          let ?ev = "ev @ [Invoke k, Sleep (d * 2 ^ (k - 1))]"
          have "invocations (snd (bedrock_retry_loop m d operation (k + 1) (Some e) ?ev))
                  \<le> invocations ?ev + (Suc m - (k + 1))"
            using "1.IH"(2) [OF True Inl nthr rt] .
          moreover have "invocations ?ev + (Suc m - (k + 1)) = invocations ev + (Suc m - k)"
            using True by (simp add: invocations_append Suc_diff_le)
          ultimately show ?thesis using rt nthr Inl by (simp add: bedrock_loop_retry)
        next
          case False
          have "bedrock_retry_loop m d operation k l ev = (Inl (Some e), ev @ [Invoke k])"
            using True Inl nthr False by (rule bedrock_loop_break)
          then show ?thesis using True by (simp add: invocations_append)
        qed
      qed
    qed
  qed
qed

lemma bedrock_at_most_three:
  "invocations (snd (bedrock_executeWithRetry operation)) \<le> 3"
  using bedrock_loop_invocations [of 3 1000 operation 1 None "[]"]
  by (simp add: bedrock_executeWithRetry_def)

text \<open>The Bedrock adapter gives up at once on an error that is neither throttling nor
  listed as retryable.\<close>

lemma bedrock_non_retryable_once:
  assumes "operation 1 = Inl e" "\<not> isThrottling e" "\<not> isRetryableError e"
  shows "bedrock_executeWithRetry operation = (Inl (Some e), [Invoke 1])"
proof -
  have "bedrock_retry_loop 3 1000 operation 1 None [] = (Inl (Some e), [] @ [Invoke 1])"
    using assms by (intro bedrock_loop_break) simp_all
  then show ?thesis by (simp add: bedrock_executeWithRetry_def)
qed

lemma config_error_not_retryable:
  "\<not> isThrottling ex_config_error \<and> \<not> isRetryableError ex_config_error"
  by (simp add: isThrottling_def isRetryableError_def ex_config_error_def)

text \<open>
  Claim C6 says that only retryable errors are retried and that any other error
  propagates at once. The retry loop of the Pinecone adapter does not classify errors: an
  operation that fails with a configuration error on every attempt is invoked three times,
  with two sleeps, before the error is thrown. The Bedrock adapter invokes the same
  operation once.
\<close>

theorem C6_pinecone_retries_every_error:
  "pinecone_executeWithRetry ex_failing_operation
     = (Inl (Some ex_config_error), [Invoke 1, Sleep 1000, Invoke 2, Sleep 2000, Invoke 3])
   \<and> bedrock_executeWithRetry ex_failing_operation = (Inl (Some ex_config_error), [Invoke 1])"
proof -
  have op: "ex_failing_operation k = Inl ex_config_error" for k
    by (simp add: ex_failing_operation_def)
  have step: "pinecone_retry_loop m d ex_failing_operation k l ev =
      pinecone_retry_loop m d ex_failing_operation (Suc k) (Some ex_config_error)
        (ev @ [Invoke k] @ (if k < m then [Sleep (d * 2 ^ (k - 1))] else []))"
    if "k \<le> m" for m d k l ev
    using that op by (rule pinecone_loop_retry)
  have "pinecone_retry_loop (Suc (Suc (Suc 0))) 1000 ex_failing_operation (Suc 0) None []
      = (Inl (Some ex_config_error),
         [Invoke (Suc 0), Sleep 1000, Invoke (Suc (Suc 0)), Sleep 2000,
          Invoke (Suc (Suc (Suc 0)))])"
    by (simp add: step pinecone_loop_exit)
  then have "pinecone_executeWithRetry ex_failing_operation
     = (Inl (Some ex_config_error), [Invoke 1, Sleep 1000, Invoke 2, Sleep 2000, Invoke 3])"
    by (simp add: pinecone_executeWithRetry_def numeral_3_eq_3 numeral_2_eq_2)
  moreover have "bedrock_executeWithRetry ex_failing_operation = (Inl (Some ex_config_error), [Invoke 1])"
    using config_error_not_retryable op
    by (intro bedrock_non_retryable_once) simp_all
  ultimately show ?thesis by simp
qed

section \<open>Properties of the health monitor\<close>

lemma filter_nonempty_iff: "0 < length (filter P xs) \<longleftrightarrow> (\<exists>x\<in>set xs. P x)"
  by (induction xs) auto

lemma overall_status_cases:
  "oh_status (getOverallHealth services) =
     (if \<exists>s\<in>set (map snd services). critical s \<and> lastStatus s = ''unhealthy'' then ''critical''
      else if \<exists>s\<in>set (map snd services). lastStatus s = ''unhealthy'' then ''degraded''
      else ''healthy'')"
proof -
  have c: "0 < length (filter (\<lambda>s. lastStatus s = ''unhealthy'') (filter critical (map snd services)))
        \<longleftrightarrow> (\<exists>s\<in>set (map snd services). critical s \<and> lastStatus s = ''unhealthy'')"
    unfolding filter_filter filter_nonempty_iff by blast
  have u: "0 < length (filter (\<lambda>s. lastStatus s = ''unhealthy'') (map snd services))
        \<longleftrightarrow> (\<exists>s\<in>set (map snd services). lastStatus s = ''unhealthy'')"
    by (rule filter_nonempty_iff)
  have "oh_status (getOverallHealth services) =
     (if 0 < length (filter (\<lambda>s. lastStatus s = ''unhealthy'') (filter critical (map snd services)))
      then ''critical''
      else if 0 < length (filter (\<lambda>s. lastStatus s = ''unhealthy'') (map snd services))
      then ''degraded'' else ''healthy'')"
    unfolding getOverallHealth_def Let_def by (simp only: overall_health.simps)
  then show ?thesis by (simp only: c u)
qed

lemma overall_critical_iff:
  "oh_status (getOverallHealth services) = ''critical'' \<longleftrightarrow>
   (\<exists>s\<in>set (map snd services). critical s \<and> lastStatus s = ''unhealthy'')"
  unfolding overall_status_cases by (simp split: if_splits)

lemma overall_degraded_iff:
  "oh_status (getOverallHealth services) = ''degraded'' \<longleftrightarrow>
   \<not> (\<exists>s\<in>set (map snd services). critical s \<and> lastStatus s = ''unhealthy'')
   \<and> (\<exists>s\<in>set (map snd services). lastStatus s = ''unhealthy'')"
  unfolding overall_status_cases by (simp split: if_splits)

lemma map_set_all:
  "P v \<Longrightarrow> list_all (\<lambda>p. P (snd p)) kvs \<Longrightarrow> list_all (\<lambda>p. P (snd p)) (map_set k v kvs)"
  by (induction kvs) auto

lemma map_of_all:
  "list_all (\<lambda>p. P (snd p)) kvs \<Longrightarrow> map_of kvs k = Some v \<Longrightarrow> P v"
  by (induction kvs) (auto split: if_splits)

lemma registerService_critical:
  assumes "opt_critical options = Some True" "list_all (\<lambda>p. critical (snd p)) services"
  shows "list_all (\<lambda>p. critical (snd p)) (registerService name options services)"
  unfolding registerService_def using assms by (intro map_set_all) simp_all

lemma checkServiceHealth_critical:
  assumes "list_all (\<lambda>p. critical (snd p)) services"
  shows "list_all (\<lambda>p. critical (snd p)) (checkServiceHealth name result services)"
proof (cases "map_of services name")
  case None
  with assms show ?thesis by (simp add: checkServiceHealth_def)
next
  case (Some service)
  have cs: "critical service" using map_of_all [OF assms Some] .
  show ?thesis
  proof (cases "enabled service")
    case False
    with Some assms show ?thesis by (simp add: checkServiceHealth_def)
  next
    case True
    show ?thesis
      unfolding checkServiceHealth_def using Some True cs assms
      by (cases result) (simp_all add: map_set_all)
  qed
qed

lemma registered_all_critical:
  "list_all (\<lambda>p. critical (snd p))
     (checkRegistered aiName ps stats ais (registerHealthChecks aiName []))"
  unfolding checkRegistered_def registerHealthChecks_def
  by (intro checkServiceHealth_critical registerService_critical) simp_all

lemma ai_breaker_open: "circuitBreakerState ex_ai_breaker = OPEN"
  by (simp add: ex_ai_breaker_def ex_completion_failures_def new_breaker_def
      executeWithCircuitBreaker_def handleFailure_def Let_def)

text \<open>
  Claim C7 as stated fails on its second half: no non-critical completion dependency is
  registered. Completion and embedding are served by the AI provider through one breaker,
  and \<open>registerHealthChecks\<close> registers that provider as critical. When only completion
  calls have failed, five in a row, and the vector index is healthy, the breaker of the AI
  provider is open and the overall status is \<open>critical\<close>, not \<open>degraded\<close>.
\<close>

theorem C7_ai_breaker_open_counterexample:
  "circuitBreakerState ex_ai_breaker = OPEN
   \<and> oh_status (getOverallHealth ex_services_ai_open) = ''critical''"
proof -
  have b: "circuitBreakerState ex_ai_breaker = OPEN"
    by (rule ai_breaker_open)
  show ?thesis
    by (simp add: b ex_services_ai_open_def checkRegistered_def registerHealthChecks_def
      registerService_def checkServiceHealth_def pineconeHealthCheck_def aiHealthCheck_def
      getOverallHealth_def num_or_def truthy_str_def str_or_empty_def Let_def)
qed

text \<open>
  Claim C7, as the code has it. The overall status is \<open>critical\<close> exactly when a service
  registered as critical has the last status \<open>unhealthy\<close>, and \<open>degraded\<close> exactly when no
  critical service is unhealthy but some registered service is. The two services that
  \<open>registerHealthChecks\<close> registers, the vector index and the AI provider behind both
  embedding and completion, are critical, so after any monitoring cycle over them the
  status is not \<open>degraded\<close>.
\<close>

theorem C7_overall_health_status:
  "(oh_status (getOverallHealth services) = ''critical'' \<longleftrightarrow>
      (\<exists>s\<in>set (map snd services). critical s \<and> lastStatus s = ''unhealthy''))
   \<and> (oh_status (getOverallHealth services) = ''degraded'' \<longleftrightarrow>
        \<not> (\<exists>s\<in>set (map snd services). critical s \<and> lastStatus s = ''unhealthy'')
        \<and> (\<exists>s\<in>set (map snd services). lastStatus s = ''unhealthy''))
   \<and> (\<forall>s\<in>set (map snd (checkRegistered aiName ps stats ais (registerHealthChecks aiName []))).
        critical s)
   \<and> oh_status (getOverallHealth
        (checkRegistered aiName ps stats ais (registerHealthChecks aiName []))) \<noteq> ''degraded''"
proof -
  let ?reg = "checkRegistered aiName ps stats ais (registerHealthChecks aiName [])"
  have all: "\<forall>s\<in>set (map snd ?reg). critical s"
    using registered_all_critical [of aiName ps stats ais] by (auto simp: list_all_iff)
  have "oh_status (getOverallHealth ?reg) \<noteq> ''degraded''"
    unfolding overall_degraded_iff using all by blast
  then show ?thesis
    using overall_critical_iff [of services] overall_degraded_iff [of services] all
    by blast
qed

theorem C7_overall_health_status_witness:
  "map (\<lambda>s. (svc_name s, critical s, lastStatus s)) (map snd ex_services_ai_open)
     = [(''pinecone'', True, ''healthy''), (''bedrock'', True, ''unhealthy'')]
   \<and> oh_status (getOverallHealth ex_services_ai_open) = ''critical''
   \<and> oh_status (getOverallHealth ex_services_ai_open) \<noteq> ''degraded''"
proof -
  have e: "map (\<lambda>s. (svc_name s, critical s, lastStatus s)) (map snd ex_services_ai_open)
     = [(''pinecone'', True, ''healthy''), (''bedrock'', True, ''unhealthy'')]"
    by (simp add: ai_breaker_open ex_services_ai_open_def checkRegistered_def
        registerHealthChecks_def registerService_def checkServiceHealth_def
        pineconeHealthCheck_def aiHealthCheck_def num_or_def truthy_str_def str_or_empty_def)
  have "\<exists>t\<in>set (map (\<lambda>s. (svc_name s, critical s, lastStatus s)) (map snd ex_services_ai_open)).
          fst (snd t) \<and> snd (snd t) = ''unhealthy''"
    unfolding e by simp
  then have ex: "\<exists>s\<in>set (map snd ex_services_ai_open). critical s \<and> lastStatus s = ''unhealthy''"
    by auto
  have "oh_status (getOverallHealth ex_services_ai_open) = ''critical''"
    using C7_overall_health_status [of ex_services_ai_open] ex by blast
  moreover have "oh_status (getOverallHealth ex_services_ai_open) \<noteq> ''degraded''"
    using C7_overall_health_status [of ex_services_ai_open] ex by blast
  ultimately show ?thesis using e by simp
qed

end
